theory Spec2Isabelle
  imports Main "HOL-Library.Word"
begin

section \<open>Python text\<close>

text \<open>
  A Python \<open>str\<close> is a sequence of Unicode code points; it is modelled as a list of
  natural numbers. \<open>lit\<close> turns an ASCII literal of the source into that form.
\<close>

type_synonym pystr = "nat list"

definition lit :: "string \<Rightarrow> pystr" where
  "lit s = map of_char s"

text \<open>
  \<open>str.isspace\<close> for one code point, as \<open>str.strip()\<close> with no argument uses it:
  the code points CPython lists as whitespace.
\<close>

definition is_space :: "nat \<Rightarrow> bool" where
  "is_space c \<longleftrightarrow>
     (9 \<le> c \<and> c \<le> 13) \<or> (28 \<le> c \<and> c \<le> 32) \<or> c = 133 \<or> c = 160 \<or>
     c = 5760 \<or> (8192 \<le> c \<and> c \<le> 8202) \<or> c = 8232 \<or> c = 8233 \<or>
     c = 8239 \<or> c = 8287 \<or> c = 12288"

definition py_lstrip :: "pystr \<Rightarrow> pystr" where
  "py_lstrip s = dropWhile is_space s"

definition py_rstrip :: "pystr \<Rightarrow> pystr" where
  "py_rstrip s = rev (dropWhile is_space (rev s))"

definition py_strip :: "pystr \<Rightarrow> pystr" where
  "py_strip s = py_rstrip (py_lstrip s)"

text \<open>
  \<open>s.split(sep)\<close> for a separator of one character: the result is never empty, and
  \<open>"".split(sep)\<close> is \<open>[""]\<close>.
\<close>

fun py_split :: "nat \<Rightarrow> pystr \<Rightarrow> pystr list" where
  "py_split sep [] = [[]]"
| "py_split sep (c # cs) =
     (if c = sep then [] # py_split sep cs
      else (case py_split sep cs of
              [] \<Rightarrow> [[c]]
            | t # ts \<Rightarrow> (c # t) # ts))"

text \<open>\<open>sep.join(parts)\<close>.\<close>

fun py_join :: "pystr \<Rightarrow> pystr list \<Rightarrow> pystr" where
  "py_join sep [] = []"
| "py_join sep [t] = t"
| "py_join sep (t # u # ts) = t @ sep @ py_join sep (u # ts)"

text \<open>
  \<open>str.upper()\<close> on ASCII text: the letters a to z are mapped to A to Z and every
  other ASCII character is left as it is. It stands for \<open>value.upper()\<close> in
  \<open>govee_turn_all\<close>, whose \<open>value\<close> is \<open>"on"\<close> or \<open>"off"\<close>, and is used in examples
  on ASCII text. Where the program puts configured or discovered text in upper case,
  Python's case mapping is a parameter \<open>str_upper\<close> of the model: its table of cased code
  points is not part of the repository.
\<close>

definition upper_char :: "nat \<Rightarrow> nat" where
  "upper_char c = (if 97 \<le> c \<and> c \<le> 122 then c - 32 else c)"

definition py_upper :: "pystr \<Rightarrow> pystr" where
  "py_upper s = map upper_char s"

definition semicolon :: nat where "semicolon = 59"
definition colon :: nat where "colon = 58"

section \<open>Python values\<close>

text \<open>
  The values \<open>resp.json()\<close> can return, which are also the values a discovered device
  identifier or model can be. A \<open>dict\<close> is the list of its items in insertion order; its
  keys are distinct. JSON numbers are modelled by the integers: for everything this
  program does with a number (truth value, not a \<open>dict\<close>, not iterable, no \<open>upper\<close>)
  a float behaves as the integer of the same sign.
\<close>

datatype pyval =
    PyNone
  | PyBool bool
  | PyInt int
  | PyStr pystr
  | PyList "pyval list"
  | PyDict "(pystr \<times> pyval) list"

datatype py_type = NoneType | TBool | TInt | TStr | TList | TDict

fun type_of :: "pyval \<Rightarrow> py_type" where
  "type_of PyNone = NoneType"
| "type_of (PyBool b) = TBool"
| "type_of (PyInt n) = TInt"
| "type_of (PyStr s) = TStr"
| "type_of (PyList xs) = TList"
| "type_of (PyDict kvs) = TDict"

text \<open>The truth value of a Python value, as \<open>not x\<close> and \<open>x or y\<close> use it.\<close>

fun truthy :: "pyval \<Rightarrow> bool" where
  "truthy PyNone = False"
| "truthy (PyBool b) = b"
| "truthy (PyInt n) = (n \<noteq> 0)"
| "truthy (PyStr s) = (s \<noteq> [])"
| "truthy (PyList xs) = (xs \<noteq> [])"
| "truthy (PyDict kvs) = (kvs \<noteq> [])"

definition py_or :: "pyval \<Rightarrow> pyval \<Rightarrow> pyval" where
  "py_or a b = (if truthy a then a else b)"

text \<open>\<open>d.get(k)\<close>: the value at the key, \<open>None\<close> when it is absent.\<close>

definition dict_get :: "(pystr \<times> pyval) list \<Rightarrow> pystr \<Rightarrow> pyval" where
  "dict_get kvs k = (case map_of kvs k of None \<Rightarrow> PyNone | Some v \<Rightarrow> v)"

datatype py_exn = TypeError | AttributeError

text \<open>
  \<open>for d in x\<close>: a list gives its elements, a \<open>dict\<close> its keys, a string its
  characters; \<open>None\<close>, a \<open>bool\<close> and a number are not iterable and raise \<open>TypeError\<close>.
\<close>

fun py_iter :: "pyval \<Rightarrow> py_exn + pyval list" where
  "py_iter (PyList xs) = Inr xs"
| "py_iter (PyDict kvs) = Inr (map (\<lambda>kv. PyStr (fst kv)) kvs)"
| "py_iter (PyStr s) = Inr (map (\<lambda>c. PyStr [c]) s)"
| "py_iter PyNone = Inl TypeError"
| "py_iter (PyBool b) = Inl TypeError"
| "py_iter (PyInt n) = Inl TypeError"

section \<open>The vendor's HTTP interface\<close>

text \<open>
  The body of a control request, \<open>{"device": .., "model": .., "cmd": {"name": .., "value": ..}}\<close>,
  before \<open>json.dumps\<close> serialises it.
\<close>

record payload =
  pl_device :: pyval
  pl_model :: pyval
  pl_cmd_name :: pystr
  pl_cmd_value :: pystr

text \<open>
  What \<open>SESSION.put\<close> does: it returns a response with a status code and a text, or
  raises a \<open>requests.RequestException\<close>.
\<close>

datatype put_result =
    PutResponse int pystr
  | PutRequestException pystr

text \<open>
  What \<open>SESSION.get\<close>, \<open>raise_for_status\<close> and \<open>resp.json()\<close> do together in
  \<open>fetch_devices_from_api\<close>: they produce the decoded body, or one of them raises a
  \<open>requests.RequestException\<close>.
\<close>

datatype api_response =
    ApiData pyval
  | ApiRequestException pystr

section \<open>Output\<close>

text \<open>
  Each \<open>print\<close> of the source is one \<open>log_line\<close>: the constructor stands for the
  fixed text of the format string and carries the values formatted into it.
\<close>

datatype log_line =
    WarnMalformedEntry pystr
      \<comment> \<open>\<open>[WARN] Skipping malformed device entry: {chunk}\<close>\<close>
  | WarnFetchFailed pystr
      \<comment> \<open>\<open>[WARN] Could not fetch devices from Govee API: {e}\<close>\<close>
  | WarnUnexpectedShape "pystr list"
      \<comment> \<open>\<open>[WARN] Unexpected API response shape (dict). Keys: {list(data.keys())}\<close>\<close>
  | WarnUnexpectedType py_type
      \<comment> \<open>\<open>[WARN] Unexpected API response type: {type(data)}\<close>\<close>
  | InfoEnvEmpty
      \<comment> \<open>\<open>[INFO] GOVEE_DEVICES env empty; trying Govee API to discover devices...\<close>\<close>
  | InfoFetched nat
      \<comment> \<open>\<open>[INFO] Fetched {len(GOVEE_DEVICES)} devices from API\<close>\<close>
  | ErrNoDevices
      \<comment> \<open>\<open>[ERR] GOVEE_DEVICES empty and API fetch failed or returned no devices\<close>\<close>
  | InfoFiltered pystr nat nat
      \<comment> \<open>\<open>[INFO] Filtered devices to only model {ALLOWED_MODEL}: {kept} kept, {ignored} ignored\<close>\<close>
  | InfoNotFiltering
      \<comment> \<open>\<open>[INFO] ALLOWED_MODEL not set; not filtering devices.\<close>\<close>
  | WarnNoDevicesOfModel pystr
      \<comment> \<open>\<open>[WARN] No devices of model {ALLOWED_MODEL} found. Continuing without devices; ...\<close>\<close>
  | OkTurn pyval pyval pystr
      \<comment> \<open>\<open>[OK] {device} ({model}) -> {value.upper()}\<close>\<close>
  | ErrHttp pyval pyval int pystr
      \<comment> \<open>\<open>[ERR] {device} ({model}) HTTP {resp.status_code}: {resp.text}\<close>\<close>
  | ErrRequestFailed pyval pyval pystr
      \<comment> \<open>\<open>[ERR] {device} ({model}) request failed: {e}\<close>\<close>
  | SkipCooldown pystr
      \<comment> \<open>\<open>[SKIP] {msg} (cooldown)\<close>\<close>
  | Uart pystr
      \<comment> \<open>\<open>[UART] {msg}\<close>\<close>

text \<open>
  What the program does to the outside, in the order it does it: lines printed to
  standard output and to standard error, the requests sent to the vendor (the \<open>GET\<close> of
  the device list; each control \<open>PUT\<close> with the body it carries and what came back), and
  the calls of \<open>govee_turn_all\<close> made by the listening loop.
\<close>

datatype effect =
    Print log_line
  | PrintErr log_line
  | HttpGetDevices
  | HttpPutControl payload put_result
  | CallGoveeTurnAll pystr

section \<open>Static device configuration: \<open>parse_devices\<close>\<close>

text \<open>
  The loop over \<open>s.split(";")\<close>, with the list \<open>out\<close> and the printed lines
  as accumulators.
\<close>

fun parse_devices_loop ::
  "pystr list \<Rightarrow> (pystr \<times> pystr) list \<Rightarrow> log_line list \<Rightarrow> (pystr \<times> pystr) list \<times> log_line list"
where
  "parse_devices_loop [] out printed = (out, printed)"
| "parse_devices_loop (chunk0 # rest) out printed =
     (let chunk = py_strip chunk0 in
      if chunk = [] then parse_devices_loop rest out printed
      else
        let parts = py_split colon chunk in
        if length parts < 7 then
          parse_devices_loop rest out (printed @ [WarnMalformedEntry chunk])
        else
          let device = py_join [colon] (take 6 parts);
              model = parts ! 6
          in parse_devices_loop rest (out @ [(device, model)]) printed)"

definition parse_devices :: "pystr \<Rightarrow> (pystr \<times> pystr) list \<times> log_line list" where
  "parse_devices s =
     (if s = [] then ([], [])
      else parse_devices_loop (py_split semicolon s) [] [])"


section \<open>Remote discovery: \<open>fetch_devices_from_api\<close>\<close>

text \<open>
  The condition of the first branch, \<open>"data" in data and isinstance(data["data"], dict)
  and "devices" in data["data"]\<close>: when it holds, the value of \<open>data["data"]["devices"]\<close>.
\<close>

definition nested_devices :: "(pystr \<times> pyval) list \<Rightarrow> pyval option" where
  "nested_devices kvs =
     (case map_of kvs (lit ''data'') of
        Some (PyDict inner) \<Rightarrow> map_of inner (lit ''devices'')
      | _ \<Rightarrow> None)"

text \<open>The normalisation of the response shape: \<open>devices_raw\<close> and the warning printed.\<close>

definition devices_raw_of :: "pyval \<Rightarrow> pyval \<times> log_line list" where
  "devices_raw_of data =
     (case data of
        PyDict kvs \<Rightarrow>
          (case nested_devices kvs of
             Some v \<Rightarrow> (py_or v (PyList []), [])
           | None \<Rightarrow>
               (case map_of kvs (lit ''devices'') of
                  Some (PyList xs) \<Rightarrow> (PyList xs, [])
                | _ \<Rightarrow>
                    (case map_of kvs (lit ''data'') of
                       Some (PyList xs) \<Rightarrow> (PyList xs, [])
                     | _ \<Rightarrow> (PyList [], [WarnUnexpectedShape (map fst kvs)]))))
      | PyList xs \<Rightarrow> (PyList xs, [])
      | _ \<Rightarrow> (PyList [], [WarnUnexpectedType (type_of data)]))"

text \<open>The loop over \<open>devices_raw\<close>, with the list \<open>out\<close> as accumulator.\<close>

fun collect_devices :: "pyval list \<Rightarrow> (pyval \<times> pyval) list \<Rightarrow> (pyval \<times> pyval) list" where
  "collect_devices [] out = out"
| "collect_devices (d # ds) out =
     (case d of
        PyDict kvs \<Rightarrow>
          (let device_id = py_or (py_or (dict_get kvs (lit ''device''))
                                        (dict_get kvs (lit ''deviceId'')))
                                 (dict_get kvs (lit ''id''));
               model = py_or (py_or (py_or (dict_get kvs (lit ''model''))
                                           (dict_get kvs (lit ''sku'')))
                                    (dict_get kvs (lit ''productModel'')))
                             (PyStr [])
           in if \<not> truthy device_id \<or> \<not> truthy model then collect_devices ds out
              else collect_devices ds (out @ [(device_id, model)]))
      | _ \<Rightarrow> collect_devices ds out)"

definition fetch_devices_from_api ::
  "api_response \<Rightarrow> (py_exn + (pyval \<times> pyval) list) \<times> effect list"
where
  "fetch_devices_from_api resp =
     (case resp of
        ApiRequestException e \<Rightarrow> (Inr [], [HttpGetDevices, Print (WarnFetchFailed e)])
      | ApiData data \<Rightarrow>
          (let (devices_raw, warned) = devices_raw_of data;
               effs = HttpGetDevices # map Print warned
           in case py_iter devices_raw of
                Inl exn \<Rightarrow> (Inl exn, effs)
              | Inr ds \<Rightarrow> (Inr (collect_devices ds []), effs)))"

section \<open>Device resolution at start-up\<close>

text \<open>
  The device list \<open>GOVEE_DEVICES\<close> holds pairs of an identifier and a model. The pairs
  \<open>parse_devices\<close> returns hold strings; those of \<open>fetch_devices_from_api\<close> hold
  whatever values the response carried.
\<close>

type_synonym registry = "(pyval \<times> pyval) list"


text \<open>
  How start-up can end other than by going on: \<open>sys.exit(code)\<close>, or an exception that
  nothing catches.
\<close>

datatype failure = SysExit int | Uncaught py_exn

text \<open>
  \<open>os.getenv(name, default)\<close>: the environment variable is \<open>Some\<close> of its value, or
  absent.
\<close>

definition getenv :: "pystr option \<Rightarrow> pystr \<Rightarrow> pystr" where
  "getenv var dflt = (case var of None \<Rightarrow> dflt | Some v \<Rightarrow> v)"


text \<open>
  The list comprehension \<open>[(d, m) for (d, m) in GOVEE_DEVICES if (m or "").upper() ==
  ALLOWED_MODEL]\<close>. Only a string has \<open>upper\<close>: on any other value that is true,
  \<open>(m or "").upper()\<close> raises \<open>AttributeError\<close>.
\<close>

fun keep_allowed :: "(pystr \<Rightarrow> pystr) \<Rightarrow> pystr \<Rightarrow> registry \<Rightarrow> py_exn + registry" where
  "keep_allowed str_upper ALLOWED_MODEL [] = Inr []"
| "keep_allowed str_upper ALLOWED_MODEL ((d, m) # rest) =
     (case py_or m (PyStr []) of
        PyStr s \<Rightarrow>
          (case keep_allowed str_upper ALLOWED_MODEL rest of
             Inl exn \<Rightarrow> Inl exn
           | Inr kept \<Rightarrow> Inr (if str_upper s = ALLOWED_MODEL then (d, m) # kept else kept))
      | _ \<Rightarrow> Inl AttributeError)"

text \<open>
  The allow-list block: filtering by \<open>ALLOWED_MODEL\<close> when it is not empty, and the
  warning when no device is left.
\<close>

definition filter_devices ::
  "(pystr \<Rightarrow> pystr) \<Rightarrow> pystr option \<Rightarrow> registry \<Rightarrow> (failure + registry) \<times> effect list"
where
  "filter_devices str_upper ALLOWED_MODEL_env devices =
     (let ALLOWED_MODEL = str_upper (py_strip (getenv ALLOWED_MODEL_env (lit ''H6006'')));
          orig_count = length devices
      in case (if ALLOWED_MODEL \<noteq> [] then
                 (case keep_allowed str_upper ALLOWED_MODEL devices of
                    Inl exn \<Rightarrow> (Inl (Uncaught exn), [])
                  | Inr kept \<Rightarrow>
                      (Inr kept,
                       if length kept < orig_count
                       then [Print (InfoFiltered ALLOWED_MODEL (length kept)
                                      (orig_count - length kept))]
                       else []))
               else (Inr devices, [Print InfoNotFiltering]))
         of
           (Inl f, effs) \<Rightarrow> (Inl f, effs)
         | (Inr kept, effs) \<Rightarrow>
             if kept = [] then (Inr kept, effs @ [PrintErr (WarnNoDevicesOfModel ALLOWED_MODEL)])
             else (Inr kept, effs))"


section \<open>Sending a command to every device: \<open>govee_turn_all\<close>\<close>

text \<open>
  The vendor's side is a state \<open>'w\<close> and a function \<open>put\<close> that answers one control
  request in a state and gives the next state. The loop carries \<open>ok_all\<close>, that state and
  the effects so far.
\<close>

fun govee_turn_all_loop ::
  "('w \<Rightarrow> payload \<Rightarrow> put_result \<times> 'w) \<Rightarrow> pystr \<Rightarrow> registry \<Rightarrow> bool \<Rightarrow> 'w \<Rightarrow> effect list
     \<Rightarrow> bool \<times> 'w \<times> effect list"
where
  "govee_turn_all_loop put val [] ok_all w effs = (ok_all, w, effs)"
| "govee_turn_all_loop put val ((device, model) # rest) ok_all w effs =
     (let body = \<lparr>pl_device = device, pl_model = model,
                  pl_cmd_name = lit ''turn'', pl_cmd_value = val\<rparr>
      in case put w body of
           (PutResponse status_code txt, w') \<Rightarrow>
             if status_code = 200 then
               govee_turn_all_loop put val rest ok_all w'
                 (effs @ [HttpPutControl body (PutResponse status_code txt),
                          Print (OkTurn device model (py_upper val))])
             else
               govee_turn_all_loop put val rest False w'
                 (effs @ [HttpPutControl body (PutResponse status_code txt),
                          Print (ErrHttp device model status_code txt)])
         | (PutRequestException e, w') \<Rightarrow>
             govee_turn_all_loop put val rest False w'
               (effs @ [HttpPutControl body (PutRequestException e),
                        Print (ErrRequestFailed device model e)]))"

definition govee_turn_all ::
  "('w \<Rightarrow> payload \<Rightarrow> put_result \<times> 'w) \<Rightarrow> registry \<Rightarrow> pystr \<Rightarrow> 'w \<Rightarrow> bool \<times> 'w \<times> effect list"
where
  "govee_turn_all put GOVEE_DEVICES val w = govee_turn_all_loop put val GOVEE_DEVICES True w []"

section \<open>Reading the serial line\<close>

type_synonym byte = "8 word"

text \<open>
  \<open>b.decode("utf-8", errors="ignore")\<close>. \<open>utf8_sequence n0 rest\<close> is the code point
  of the well-formed sequence of two to four bytes that starts with the lead byte \<open>n0\<close>
  and goes on in \<open>rest\<close>, with the number of bytes it takes from \<open>rest\<close>. Overlong
  forms, surrogates and code points above 10FFFF are not well-formed.
\<close>

definition is_continuation :: "nat \<Rightarrow> bool" where
  "is_continuation b \<longleftrightarrow> 128 \<le> b \<and> b \<le> 191"

definition utf8_sequence :: "nat \<Rightarrow> nat list \<Rightarrow> (nat \<times> nat) option" where
  "utf8_sequence n0 rest =
     (if 194 \<le> n0 \<and> n0 \<le> 223 then
        (case rest of
           b1 # _ \<Rightarrow>
             if is_continuation b1 then Some ((n0 - 192) * 64 + (b1 - 128), 1) else None
         | _ \<Rightarrow> None)
      else if 224 \<le> n0 \<and> n0 \<le> 239 then
        (case rest of
           b1 # b2 # _ \<Rightarrow>
             if (if n0 = 224 then 160 else 128) \<le> b1 \<and> b1 \<le> (if n0 = 237 then 159 else 191)
                \<and> is_continuation b2
             then Some (((n0 - 224) * 64 + (b1 - 128)) * 64 + (b2 - 128), 2)
             else None
         | _ \<Rightarrow> None)
      else if 240 \<le> n0 \<and> n0 \<le> 244 then
        (case rest of
           b1 # b2 # b3 # _ \<Rightarrow>
             if (if n0 = 240 then 144 else 128) \<le> b1 \<and> b1 \<le> (if n0 = 244 then 143 else 191)
                \<and> is_continuation b2 \<and> is_continuation b3
             then Some ((((n0 - 240) * 64 + (b1 - 128)) * 64 + (b2 - 128)) * 64 + (b3 - 128), 3)
             else None
         | _ \<Rightarrow> None)
      else None)"

text \<open>
  The handler \<open>ignore\<close> removes the bytes of an ill-formed sequence and decoding goes
  on after them. Here the first byte is removed and decoding goes on at the next one,
  which gives the same text: the other bytes of an ill-formed sequence are continuation
  bytes, and a continuation byte starts no character.
\<close>

function utf8_decode_ignore :: "byte list \<Rightarrow> pystr" where
  "utf8_decode_ignore [] = []"
| "utf8_decode_ignore (b0 # bs) =
     (if unat b0 < 128 then unat b0 # utf8_decode_ignore bs
      else
        (case utf8_sequence (unat b0) (map unat (take 3 bs)) of
           Some (cp, k) \<Rightarrow> cp # utf8_decode_ignore (drop k bs)
         | None \<Rightarrow> utf8_decode_ignore bs))"
  by pat_completeness auto
termination
  by (relation "measure length") auto

definition normalize_line :: "byte list \<Rightarrow> pystr" where
  "normalize_line b = py_strip (utf8_decode_ignore b)"

section \<open>The listening loop of \<open>main\<close>\<close>

definition TRIGGER_ON :: pystr where
  "TRIGGER_ON = lit ''LIGHTS_ON''"

definition TRIGGER_OFF :: pystr where
  "TRIGGER_OFF = lit ''LIGHTS_OFF''"

record bridge_state =
  lights_on_state :: "bool option"
  last_action_ms :: int

text \<open>
  The state \<open>main\<close> starts with: the lights unknown, the last action at 0.
\<close>

definition initial_state :: bridge_state where
  "initial_state = \<lparr>lights_on_state = None, last_action_ms = 0\<rparr>"

text \<open>
  One turn of the inner \<open>while True\<close>: \<open>raw\<close> is what \<open>ser.readline()\<close> returned and
  \<open>now_ms\<close> what \<open>int(time.time() * 1000)\<close> gives in that turn. The result of
  \<open>govee_turn_all\<close> is not used.
\<close>

definition loop_body ::
  "('w \<Rightarrow> payload \<Rightarrow> put_result \<times> 'w) \<Rightarrow> registry \<Rightarrow> int \<Rightarrow> byte list \<Rightarrow> int
     \<Rightarrow> bridge_state \<times> 'w \<Rightarrow> (bridge_state \<times> 'w) \<times> effect list"
where
  "loop_body put GOVEE_DEVICES COOLDOWN_MS raw now_ms sw =
     (let (st, w) = sw in
      if raw = [] then ((st, w), [])
      else
        let msg = normalize_line raw in
        if msg = [] then ((st, w), [])
        else if COOLDOWN_MS > 0 \<and> now_ms - last_action_ms st < COOLDOWN_MS then
          ((st, w), [Print (SkipCooldown msg)])
        else if msg = TRIGGER_ON then
          (case govee_turn_all put GOVEE_DEVICES (lit ''on'') w of
             (ok_all, w', effs) \<Rightarrow>
               ((st\<lparr>lights_on_state := Some True, last_action_ms := now_ms\<rparr>, w'),
                CallGoveeTurnAll (lit ''on'') # effs))
        else if msg = TRIGGER_OFF then
          (case govee_turn_all put GOVEE_DEVICES (lit ''off'') w of
             (ok_all, w', effs) \<Rightarrow>
               ((st\<lparr>lights_on_state := Some False, last_action_ms := now_ms\<rparr>, w'),
                CallGoveeTurnAll (lit ''off'') # effs))
        else ((st, w), [Print (Uart msg)]))"

section \<open>Vocabulary of the properties\<close>

text \<open>
  An entry of the static configuration, given by its colon-separated tokens: there is at
  least one token, no token holds a colon or a semicolon, and the entry (the tokens joined
  by colons) is not empty and has no white space at either end.
\<close>

definition entry_tokens :: "pystr list \<Rightarrow> bool" where
  "entry_tokens ts \<longleftrightarrow>
     ts \<noteq> [] \<and> list_all (\<lambda>t. colon \<notin> set t \<and> semicolon \<notin> set t) ts \<and>
     py_join [colon] ts \<noteq> [] \<and> py_strip (py_join [colon] ts) = py_join [colon] ts"


text \<open>
  The device an entry of at least seven tokens stands for: the first six tokens joined by
  colons, and the seventh token.
\<close>

definition entry_device :: "pystr \<Rightarrow> pystr \<times> pystr" where
  "entry_device e = (py_join [colon] (take 6 (py_split colon e)), py_split colon e ! 6)"

text \<open>
  The text of a model in the device list: the string itself, and the empty text for a
  value that is false.
\<close>

definition model_text :: "pyval \<Rightarrow> pystr" where
  "model_text m = (case m of PyStr s \<Rightarrow> s | _ \<Rightarrow> [])"


text \<open>The bytes of an ASCII text.\<close>

definition bytes_of :: "string \<Rightarrow> byte list" where
  "bytes_of s = map (\<lambda>c. of_nat (of_char c)) s"

text \<open>
  The body of the control request for one device, and the answers the vendor gives to a
  sequence of requests sent one after the other from the state \<open>w\<close>.
\<close>

definition control_body :: "pystr \<Rightarrow> pyval \<times> pyval \<Rightarrow> payload" where
  "control_body val dm =
     \<lparr>pl_device = fst dm, pl_model = snd dm, pl_cmd_name = lit ''turn'', pl_cmd_value = val\<rparr>"

fun put_answers ::
  "('w \<Rightarrow> payload \<Rightarrow> put_result \<times> 'w) \<Rightarrow> 'w \<Rightarrow> payload list \<Rightarrow> put_result list"
where
  "put_answers put w [] = []"
| "put_answers put w (b # bs) = fst (put w b) # put_answers put (snd (put w b)) bs"

text \<open>A request succeeded when a response came back with status 200.\<close>

fun succeeded :: "put_result \<Rightarrow> bool" where
  "succeeded (PutResponse status_code answer) = (status_code = 200)"
| "succeeded (PutRequestException e) = False"

text \<open>The line printed for a device, given the answer to its request.\<close>

fun device_line :: "pystr \<Rightarrow> pyval \<times> pyval \<Rightarrow> put_result \<Rightarrow> log_line" where
  "device_line val dm (PutResponse status_code answer) =
     (if status_code = 200 then OkTurn (fst dm) (snd dm) (py_upper val)
      else ErrHttp (fst dm) (snd dm) status_code answer)"
| "device_line val dm (PutRequestException e) = ErrRequestFailed (fst dm) (snd dm) e"

definition device_effects :: "pystr \<Rightarrow> (pyval \<times> pyval) \<times> put_result \<Rightarrow> effect list" where
  "device_effects val dr =
     [HttpPutControl (control_body val (fst dr)) (snd dr),
      Print (device_line val (fst dr) (snd dr))]"

text \<open>
  The first value that is true among those a record holds at the given keys, and the
  device a raw record of the discovery response stands for: a record that is a \<open>dict\<close> with
  such a value for the identifier and for the model.
\<close>

definition first_truthy :: "(pystr \<times> pyval) list \<Rightarrow> pystr list \<Rightarrow> pyval option" where
  "first_truthy kvs keys = find truthy (map (dict_get kvs) keys)"

definition record_device :: "pyval \<Rightarrow> (pyval \<times> pyval) option" where
  "record_device r =
     (case r of
        PyDict kvs \<Rightarrow>
          (case (first_truthy kvs [lit ''device'', lit ''deviceId'', lit ''id''],
                 first_truthy kvs [lit ''model'', lit ''sku'', lit ''productModel'']) of
             (Some i, Some m) \<Rightarrow> Some (i, m)
           | _ \<Rightarrow> None)
      | _ \<Rightarrow> None)"

text \<open>
  The specification's reading of discovery, in its own words, for comparison with the
  code. \<open>spec_response_records\<close> gives the raw records of the four response shapes it
  lists (an object whose \<open>data\<close> is an object with a list \<open>devices\<close>, an object with a list
  \<open>devices\<close>, an object whose \<open>data\<close> is a list, a list) and \<open>None\<close> for any other shape;
  \<open>spec_first_present\<close> is the value at the first of the given keys that the record has.
\<close>

definition spec_response_records :: "pyval \<Rightarrow> pyval list option" where
  "spec_response_records data =
     (case data of
        PyList xs \<Rightarrow> Some xs
      | PyDict kvs \<Rightarrow>
          (case (case map_of kvs (lit ''data'') of
                   Some (PyDict inner) \<Rightarrow> map_of inner (lit ''devices'')
                 | _ \<Rightarrow> None) of
             Some (PyList xs) \<Rightarrow> Some xs
           | _ \<Rightarrow>
               (case map_of kvs (lit ''devices'') of
                  Some (PyList xs) \<Rightarrow> Some xs
                | _ \<Rightarrow>
                    (case map_of kvs (lit ''data'') of
                       Some (PyList xs) \<Rightarrow> Some xs
                     | _ \<Rightarrow> None)))
      | _ \<Rightarrow> None)"

definition spec_first_present :: "(pystr \<times> pyval) list \<Rightarrow> pystr list \<Rightarrow> pyval option" where
  "spec_first_present kvs keys =
     (case filter (\<lambda>k. map_of kvs k \<noteq> None) keys of
        [] \<Rightarrow> None
      | k # _ \<Rightarrow> map_of kvs k)"

section \<open>Properties of the text operations\<close>

lemma py_split_no_sep: "sep \<notin> set t \<Longrightarrow> py_split sep t = [t]"
  by (induction t) auto

lemma py_split_append_sep:
  "sep \<notin> set t \<Longrightarrow> py_split sep (t @ sep # r) = t # py_split sep r"
  by (induction t) auto

lemma py_split_join:
  "ts \<noteq> [] \<Longrightarrow> \<forall>t\<in>set ts. sep \<notin> set t \<Longrightarrow> py_split sep (py_join [sep] ts) = ts"
  by (induction "[sep]" ts rule: py_join.induct) (auto simp: py_split_no_sep py_split_append_sep)

lemma set_py_join: "set (py_join sep ts) \<subseteq> set sep \<union> \<Union> (set ` set ts)"
  by (induction sep ts rule: py_join.induct) auto

lemma py_join_nonempty: "ts \<noteq> [] \<Longrightarrow> hd ts \<noteq> [] \<Longrightarrow> py_join sep ts \<noteq> []"
  by (induction sep ts rule: py_join.induct) auto

lemma entry_tokens_split:
  assumes "entry_tokens ts"
  shows "py_split colon (py_join [colon] ts) = ts"
  using assms by (intro py_split_join) (auto simp: entry_tokens_def list_all_iff)

lemma entry_tokens_no_semicolon:
  assumes "entry_tokens ts"
  shows "semicolon \<notin> set (py_join [colon] ts)"
proof
  assume "semicolon \<in> set (py_join [colon] ts)"
  then have "semicolon \<in> set [colon] \<union> \<Union> (set ` set ts)"
    using set_py_join by blast
  then show False
    using assms by (auto simp: entry_tokens_def list_all_iff semicolon_def colon_def)
qed

lemma parse_devices_loop_tokens:
  assumes "list_all entry_tokens tss"
  shows "parse_devices_loop (map (py_join [colon]) tss) out printed =
           (out @ map (\<lambda>ts. (py_join [colon] (take 6 ts), ts ! 6)) (filter (\<lambda>ts. 7 \<le> length ts) tss),
            printed @ map (\<lambda>ts. WarnMalformedEntry (py_join [colon] ts)) (filter (\<lambda>ts. length ts < 7) tss))"
  using assms
proof (induction tss arbitrary: out printed)
  case Nil
  then show ?case by simp
next
  case (Cons ts tss)
  from Cons.prems have e: "entry_tokens ts" and r: "list_all entry_tokens tss" by simp_all
  have s: "py_strip (py_join [colon] ts) = py_join [colon] ts" and n: "py_join [colon] ts \<noteq> []"
    using e by (simp_all add: entry_tokens_def)
  show ?case
    by (cases "length ts < 7") (simp_all add: s n entry_tokens_split [OF e] Cons.IH [OF r] Let_def)
qed

lemma parse_devices_tokens:
  assumes "list_all entry_tokens tss"
  shows "parse_devices (py_join [semicolon] (map (py_join [colon]) tss)) =
           (map (\<lambda>ts. (py_join [colon] (take 6 ts), ts ! 6)) (filter (\<lambda>ts. 7 \<le> length ts) tss),
            map (\<lambda>ts. WarnMalformedEntry (py_join [colon] ts)) (filter (\<lambda>ts. length ts < 7) tss))"
proof (cases tss)
  case Nil
  then show ?thesis by (simp add: parse_devices_def)
next
  case (Cons ts rest)
  let ?es = "map (py_join [colon]) tss"
  have all: "\<forall>ts\<in>set tss. entry_tokens ts"
    using assms by (simp add: list_all_iff)
  have ne: "?es \<noteq> []" using Cons by simp
  have "hd ?es \<noteq> []"
    using Cons all by (simp add: entry_tokens_def)
  then have s: "py_join [semicolon] ?es \<noteq> []"
    using ne by (rule py_join_nonempty [rotated])
  have "\<forall>e\<in>set ?es. semicolon \<notin> set e"
    using all entry_tokens_no_semicolon by auto
  then have "py_split semicolon (py_join [semicolon] ?es) = ?es"
    using ne by (intro py_split_join) 
  then show ?thesis
    using s parse_devices_loop_tokens [OF assms, of "[]" "[]"] by (simp add: parse_devices_def)
qed



section \<open>Properties of \<open>parse_devices\<close>\<close>

lemma parse_devices_loop_chunks:
  "parse_devices_loop cs out printed =
     (out @ map entry_device
              (filter (\<lambda>e. e \<noteq> [] \<and> 7 \<le> length (py_split colon e)) (map py_strip cs)),
      printed @ map WarnMalformedEntry
                  (filter (\<lambda>e. e \<noteq> [] \<and> length (py_split colon e) < 7) (map py_strip cs)))"
proof (induction cs arbitrary: out printed)
  case Nil
  then show ?case by simp
next
  case (Cons c cs)
  show ?case
  proof (cases "py_strip c = []")
    case True
    then show ?thesis by (simp add: Cons.IH)
  next
    case False
    then show ?thesis
      by (cases "length (py_split colon (py_strip c)) < 7")
         (simp_all add: Cons.IH Let_def entry_device_def)
  qed
qed

lemma py_strip_Nil [simp]: "py_strip [] = []"
  by (simp add: py_strip_def py_lstrip_def py_rstrip_def)

text \<open>
  Claim C6, as the code has it. \<open>parse_devices\<close> splits the string at the semicolons and
  trims each entry. An entry that is empty after trimming is skipped and nothing is
  printed for it. Of the other entries, in order, each one with at least seven
  colon-separated tokens gives a device, and each one with fewer than seven tokens is
  skipped with a warning that names it, the entries after it being parsed all the same.
  The device of a well-formed entry, six tokens and a model joined by colons, has the six
  tokens joined by colons as identifier and the model as model.
\<close>

theorem parse_devices_entries:
  "parse_devices s =
     (map entry_device
        (filter (\<lambda>e. e \<noteq> [] \<and> 7 \<le> length (py_split colon e))
           (map py_strip (py_split semicolon s))),
      map WarnMalformedEntry
        (filter (\<lambda>e. e \<noteq> [] \<and> length (py_split colon e) < 7)
           (map py_strip (py_split semicolon s)))) \<and>
   (length bs = 6 \<longrightarrow> (\<forall>t\<in>set (bs @ [m]). colon \<notin> set t) \<longrightarrow>
      length (py_split colon (py_join [colon] (bs @ [m]))) = 7 \<and>
      entry_device (py_join [colon] (bs @ [m])) = (py_join [colon] bs, m))"
proof -
  have whole: "parse_devices s =
     (map entry_device
        (filter (\<lambda>e. e \<noteq> [] \<and> 7 \<le> length (py_split colon e))
           (map py_strip (py_split semicolon s))),
      map WarnMalformedEntry
        (filter (\<lambda>e. e \<noteq> [] \<and> length (py_split colon e) < 7)
           (map py_strip (py_split semicolon s))))"
    by (cases "s = []") (simp_all add: parse_devices_def parse_devices_loop_chunks)
  have entry: "length (py_split colon (py_join [colon] (bs @ [m]))) = 7 \<and>
      entry_device (py_join [colon] (bs @ [m])) = (py_join [colon] bs, m)"
    if l: "length bs = 6" and c: "\<forall>t\<in>set (bs @ [m]). colon \<notin> set t"
  proof -
    have sp: "py_split colon (py_join [colon] (bs @ [m])) = bs @ [m]"
      using c by (intro py_split_join) simp_all
    then show ?thesis
      using l by (simp add: entry_device_def nth_append)
  qed
  show ?thesis
    using whole entry by blast
qed

text \<open>
  The two configuration strings of the specification: two well-formed entries give two
  devices; a malformed entry before a well-formed one gives that one device and a warning.
  The same with blanks around the entries and an empty entry at the end.
\<close>

theorem parse_devices_entries_witness:
  "parse_devices (lit ''aa:bb:cc:dd:ee:ff:H6104;11:22:33:44:55:66:H6003'') =
     ([(lit ''aa:bb:cc:dd:ee:ff'', lit ''H6104''), (lit ''11:22:33:44:55:66'', lit ''H6003'')], []) \<and>
   parse_devices (lit ''bad;aa:bb:cc:dd:ee:ff:H6104'') =
     ([(lit ''aa:bb:cc:dd:ee:ff'', lit ''H6104'')], [WarnMalformedEntry (lit ''bad'')]) \<and>
   parse_devices (lit '' bad ; aa:bb:cc:dd:ee:ff:H6104 ;'') =
     ([(lit ''aa:bb:cc:dd:ee:ff'', lit ''H6104'')], [WarnMalformedEntry (lit ''bad'')]) \<and>
   entry_device (lit ''aa:bb:cc:dd:ee:ff:H6104'') = (lit ''aa:bb:cc:dd:ee:ff'', lit ''H6104'')"
proof -
  have sp: "is_space 32" "\<not> is_space 97" "\<not> is_space 52" "\<not> is_space 49" "\<not> is_space 51"
    "\<not> is_space 98" "\<not> is_space 100"
    by (simp_all add: is_space_def)
  let ?bs = "[lit ''aa'', lit ''bb'', lit ''cc'', lit ''dd'', lit ''ee'', lit ''ff'']"
  have six: "length ?bs = 6" by simp
  have nc: "\<forall>t\<in>set (?bs @ [lit ''H6104'']). colon \<notin> set t"
    by (simp add: lit_def colon_def)
  have j: "py_join [colon] (?bs @ [lit ''H6104'']) = lit ''aa:bb:cc:dd:ee:ff:H6104''"
    "py_join [colon] ?bs = lit ''aa:bb:cc:dd:ee:ff''"
    by (simp_all add: lit_def colon_def)
  have e: "entry_device (lit ''aa:bb:cc:dd:ee:ff:H6104'') = (lit ''aa:bb:cc:dd:ee:ff'', lit ''H6104'')"
    using parse_devices_entries [of "[]" ?bs "lit ''H6104''"] six nc unfolding j by blast
  have 1: "parse_devices (lit ''aa:bb:cc:dd:ee:ff:H6104;11:22:33:44:55:66:H6003'') =
     ([(lit ''aa:bb:cc:dd:ee:ff'', lit ''H6104''), (lit ''11:22:33:44:55:66'', lit ''H6003'')], [])"
    using parse_devices_entries [of "lit ''aa:bb:cc:dd:ee:ff:H6104;11:22:33:44:55:66:H6003''" "[]" "[]"]
    by (simp add: entry_device_def lit_def semicolon_def colon_def py_strip_def py_lstrip_def
        py_rstrip_def sp)
  have 2: "parse_devices (lit ''bad;aa:bb:cc:dd:ee:ff:H6104'') =
     ([(lit ''aa:bb:cc:dd:ee:ff'', lit ''H6104'')], [WarnMalformedEntry (lit ''bad'')])"
    using parse_devices_entries [of "lit ''bad;aa:bb:cc:dd:ee:ff:H6104''" "[]" "[]"]
    by (simp add: entry_device_def lit_def semicolon_def colon_def py_strip_def py_lstrip_def
        py_rstrip_def sp)
  have 3: "parse_devices (lit '' bad ; aa:bb:cc:dd:ee:ff:H6104 ;'') =
     ([(lit ''aa:bb:cc:dd:ee:ff'', lit ''H6104'')], [WarnMalformedEntry (lit ''bad'')])"
    using parse_devices_entries [of "lit '' bad ; aa:bb:cc:dd:ee:ff:H6104 ;''" "[]" "[]"]
    by (simp add: entry_device_def lit_def semicolon_def colon_def py_strip_def py_lstrip_def
        py_rstrip_def sp)
  show ?thesis
    using 1 2 3 e by simp
qed

text \<open>
  Claim C6 as the specification words it fails on the code: in a string that ends with a
  semicolon the last entry is empty, so it has one token, fewer than seven, yet it is
  skipped with no warning.
\<close>

theorem parse_devices_blank_entry_counterexample:
  "py_split semicolon (lit ''aa:bb:cc:dd:ee:ff:H6104;'') = [lit ''aa:bb:cc:dd:ee:ff:H6104'', []] \<and>
   length (py_split colon []) < 7 \<and>
   parse_devices (lit ''aa:bb:cc:dd:ee:ff:H6104;'') =
     ([(lit ''aa:bb:cc:dd:ee:ff'', lit ''H6104'')], [])"
  by (simp add: parse_devices_def lit_def semicolon_def colon_def py_strip_def py_lstrip_def
      py_rstrip_def is_space_def)

text \<open>
  Claim C10. An entry of more than seven tokens is not malformed: \<open>parse_devices\<close>
  returns a device for it whose identifier is the first six tokens joined by colons and
  whose model is the seventh token; the tokens after the seventh appear nowhere in the
  result, and nothing is printed.
\<close>

theorem parse_devices_extra_tokens:
  assumes "list_all (\<lambda>ts. entry_tokens ts \<and> 7 < length ts) tss"
  shows "parse_devices (py_join [semicolon] (map (py_join [colon]) tss)) =
           (map (\<lambda>ts. (py_join [colon] (take 6 ts), ts ! 6)) tss, [])"
proof -
  have all: "list_all entry_tokens tss" and gt: "\<forall>ts\<in>set tss. 7 < length ts"
    using assms by (simp_all add: list_all_iff)
  have keep: "filter (\<lambda>ts. 7 \<le> length ts) tss = tss"
    using gt by (intro filter_True) auto
  have none: "filter (\<lambda>ts. length ts < 7) tss = []"
    using gt by (intro filter_False) auto
  show ?thesis
    using parse_devices_tokens [OF all] by (simp add: keep none)
qed

theorem parse_devices_extra_tokens_witness:
  "parse_devices (lit ''aa:bb:cc:dd:ee:ff:H6104:x:y'') =
     ([(lit ''aa:bb:cc:dd:ee:ff'', lit ''H6104'')], [])"
proof -
  let ?a = "[lit ''aa'', lit ''bb'', lit ''cc'', lit ''dd'', lit ''ee'', lit ''ff'', lit ''H6104'',
             lit ''x'', lit ''y'']"
  have sp: "\<not> is_space 97" "\<not> is_space 121"
    by (simp_all add: is_space_def)
  have ea: "entry_tokens ?a \<and> 7 < length ?a"
    by (simp add: entry_tokens_def lit_def colon_def semicolon_def py_strip_def py_lstrip_def
        py_rstrip_def sp)
  then have 1: "list_all (\<lambda>ts. entry_tokens ts \<and> 7 < length ts) [?a]"
    by simp
  show ?thesis
    using parse_devices_extra_tokens [OF 1]
    by (simp add: lit_def colon_def semicolon_def)
qed

section \<open>Properties of \<open>fetch_devices_from_api\<close>\<close>

lemma record_device_dict:
  "record_device (PyDict kvs) =
     (let device_id = py_or (py_or (dict_get kvs (lit ''device''))
                                   (dict_get kvs (lit ''deviceId'')))
                            (dict_get kvs (lit ''id''));
          model = py_or (py_or (py_or (dict_get kvs (lit ''model''))
                                      (dict_get kvs (lit ''sku'')))
                               (dict_get kvs (lit ''productModel'')))
                        (PyStr [])
      in if \<not> truthy device_id \<or> \<not> truthy model then None else Some (device_id, model))"
  by (simp add: record_device_def first_truthy_def py_or_def Let_def)

lemma record_device_other:
  "record_device PyNone = None" "record_device (PyBool b) = None" "record_device (PyInt n) = None"
  "record_device (PyStr s) = None" "record_device (PyList ys) = None"
  by (simp_all add: record_device_def)

lemma collect_devices_map_filter:
  "collect_devices xs out = out @ List.map_filter record_device xs"
proof (induction xs arbitrary: out)
  case Nil
  then show ?case by (simp add:)
next
  case (Cons x xs)
  show ?case
  proof (cases x)
    case (PyDict kvs)
    then show ?thesis
      by (simp add: Cons.IH record_device_dict Let_def)
  qed (simp_all add: Cons.IH record_device_other)
qed

lemma fetch_of_records:
  "devices_raw_of data = (PyList xs, warned) \<Longrightarrow>
   fetch_devices_from_api (ApiData data) =
     (Inr (List.map_filter record_device xs), HttpGetDevices # map Print warned)"
  by (simp add: fetch_devices_from_api_def collect_devices_map_filter)

text \<open>
  Claim C7, as the code has it. \<open>fetch_devices_from_api\<close> takes the raw records
  \<^item> from a response that is a list;
  \<^item> when the response is an object whose \<open>data\<close> is an object with a key \<open>devices\<close>:
    from the value at that key when it is a list, and no record, without a warning, when
    that value is \<open>null\<close> or otherwise false (a value there that is true and not a list is
    the one case this statement leaves out);
  \<^item> when the response is an object of another kind with a list at \<open>devices\<close>: from that
    list;
  \<^item> when it is an object of neither kind with a list at \<open>data\<close>: from that list.

  An object of none of these kinds gives no device and a warning with its keys; a
  response that is neither an object nor a list gives no device and a warning with its
  type; a failed request gives no device and a warning. Of the raw records, each \<open>dict\<close>
  that holds a true value at one of \<open>device\<close>, \<open>deviceId\<close>, \<open>id\<close> and at one of
  \<open>model\<close>, \<open>sku\<close>, \<open>productModel\<close> gives a device, made of the first such values in
  that order; every other record is dropped and the records after it are still read.
\<close>

theorem fetch_devices_from_api_normalisation:
  "fetch_devices_from_api (ApiData (PyList xs)) =
     (Inr (List.map_filter record_device xs), [HttpGetDevices]) \<and>
   (nested_devices kvs = Some v \<longrightarrow> v = PyList xs \<or> \<not> truthy v \<and> xs = [] \<longrightarrow>
      fetch_devices_from_api (ApiData (PyDict kvs)) =
        (Inr (List.map_filter record_device xs), [HttpGetDevices])) \<and>
   (nested_devices kvs = None \<longrightarrow> map_of kvs (lit ''devices'') = Some (PyList xs) \<longrightarrow>
      fetch_devices_from_api (ApiData (PyDict kvs)) =
        (Inr (List.map_filter record_device xs), [HttpGetDevices])) \<and>
   (nested_devices kvs = None \<longrightarrow> (\<forall>ys. map_of kvs (lit ''devices'') \<noteq> Some (PyList ys)) \<longrightarrow>
    map_of kvs (lit ''data'') = Some (PyList xs) \<longrightarrow>
      fetch_devices_from_api (ApiData (PyDict kvs)) =
        (Inr (List.map_filter record_device xs), [HttpGetDevices])) \<and>
   (nested_devices kvs = None \<longrightarrow> (\<forall>ys. map_of kvs (lit ''devices'') \<noteq> Some (PyList ys)) \<longrightarrow>
    (\<forall>ys. map_of kvs (lit ''data'') \<noteq> Some (PyList ys)) \<longrightarrow>
      fetch_devices_from_api (ApiData (PyDict kvs)) =
        (Inr [], [HttpGetDevices, Print (WarnUnexpectedShape (map fst kvs))])) \<and>
   (type_of data \<noteq> TDict \<longrightarrow> type_of data \<noteq> TList \<longrightarrow>
      fetch_devices_from_api (ApiData data) =
        (Inr [], [HttpGetDevices, Print (WarnUnexpectedType (type_of data))])) \<and>
   fetch_devices_from_api (ApiRequestException e) =
     (Inr [], [HttpGetDevices, Print (WarnFetchFailed e)])"
proof -
  have bare: "fetch_devices_from_api (ApiData (PyList xs)) =
     (Inr (List.map_filter record_device xs), [HttpGetDevices])"
    by (simp add: fetch_of_records [where warned = "[]"] devices_raw_of_def)
  have nested: "fetch_devices_from_api (ApiData (PyDict kvs)) =
        (Inr (List.map_filter record_device xs), [HttpGetDevices])"
    if "nested_devices kvs = Some v" "v = PyList xs \<or> \<not> truthy v \<and> xs = []"
  proof -
    have "py_or v (PyList []) = PyList xs"
      using that(2) by (auto simp: py_or_def)
    then have "devices_raw_of (PyDict kvs) = (PyList xs, [])"
      using that(1) by (simp add: devices_raw_of_def)
    then show ?thesis by (simp add: fetch_of_records)
  qed
  have top: "fetch_devices_from_api (ApiData (PyDict kvs)) =
        (Inr (List.map_filter record_device xs), [HttpGetDevices])"
    if "nested_devices kvs = None" "map_of kvs (lit ''devices'') = Some (PyList xs)"
  proof -
    have "devices_raw_of (PyDict kvs) = (PyList xs, [])"
      using that by (simp add: devices_raw_of_def)
    then show ?thesis by (simp add: fetch_of_records)
  qed
  have dat: "fetch_devices_from_api (ApiData (PyDict kvs)) =
        (Inr (List.map_filter record_device xs), [HttpGetDevices])"
    if "nested_devices kvs = None" "\<forall>ys. map_of kvs (lit ''devices'') \<noteq> Some (PyList ys)"
      "map_of kvs (lit ''data'') = Some (PyList xs)"
  proof -
    have "devices_raw_of (PyDict kvs) = (PyList xs, [])"
      using that by (auto simp: devices_raw_of_def split: option.splits pyval.splits)
    then show ?thesis by (simp add: fetch_of_records)
  qed
  have other: "fetch_devices_from_api (ApiData (PyDict kvs)) =
        (Inr [], [HttpGetDevices, Print (WarnUnexpectedShape (map fst kvs))])"
    if "nested_devices kvs = None" "\<forall>ys. map_of kvs (lit ''devices'') \<noteq> Some (PyList ys)"
      "\<forall>ys. map_of kvs (lit ''data'') \<noteq> Some (PyList ys)"
  proof -
    have "devices_raw_of (PyDict kvs) = (PyList [], [WarnUnexpectedShape (map fst kvs)])"
      using that by (auto simp: devices_raw_of_def split: option.splits pyval.splits)
    then show ?thesis by (simp add: fetch_of_records)
  qed
  have ty: "fetch_devices_from_api (ApiData data) =
        (Inr [], [HttpGetDevices, Print (WarnUnexpectedType (type_of data))])"
    if "type_of data \<noteq> TDict" "type_of data \<noteq> TList"
  proof -
    have "devices_raw_of data = (PyList [], [WarnUnexpectedType (type_of data)])"
      using that by (cases data) (simp_all add: devices_raw_of_def)
    then show ?thesis by (simp add: fetch_of_records)
  qed
  have exc: "fetch_devices_from_api (ApiRequestException e) =
     (Inr [], [HttpGetDevices, Print (WarnFetchFailed e)])"
    by (simp add: fetch_devices_from_api_def)
  show ?thesis
    using bare nested top dat other ty exc by blast
qed


theorem fetch_devices_from_api_normalisation_witness:
  "fetch_devices_from_api
     (ApiData (PyDict [(lit ''data'', PyDict [(lit ''devices'',
        PyList [PyDict [(lit ''id'', PyStr (lit ''abc'')), (lit ''sku'', PyStr (lit ''H6006''))],
                PyInt 3,
                PyDict [(lit ''device'', PyStr (lit ''def''))],
                PyDict [(lit ''device'', PyStr (lit ''ghi'')),
                        (lit ''model'', PyStr (lit ''H6003''))]])])])) =
     (Inr [(PyStr (lit ''abc''), PyStr (lit ''H6006'')), (PyStr (lit ''ghi''), PyStr (lit ''H6003''))],
      [HttpGetDevices]) \<and>
   fetch_devices_from_api (ApiData (PyDict [(lit ''devices'', PyInt 3)])) =
     (Inr [], [HttpGetDevices, Print (WarnUnexpectedShape [lit ''devices''])]) \<and>
   fetch_devices_from_api (ApiData (PyStr (lit ''no''))) =
     (Inr [], [HttpGetDevices, Print (WarnUnexpectedType TStr)])"
proof -
  let ?xs = "[PyDict [(lit ''id'', PyStr (lit ''abc'')), (lit ''sku'', PyStr (lit ''H6006''))],
              PyInt 3,
              PyDict [(lit ''device'', PyStr (lit ''def''))],
              PyDict [(lit ''device'', PyStr (lit ''ghi'')),
                      (lit ''model'', PyStr (lit ''H6003''))]]"
  let ?kvs = "[(lit ''data'', PyDict [(lit ''devices'', PyList ?xs)])]"
  let ?kvs' = "[(lit ''devices'', PyInt 3)]"
  have n: "nested_devices ?kvs = Some (PyList ?xs)"
    by (simp add: nested_devices_def lit_def)
  have r: "List.map_filter record_device ?xs =
             [(PyStr (lit ''abc''), PyStr (lit ''H6006'')), (PyStr (lit ''ghi''), PyStr (lit ''H6003''))]"
    by (simp add: record_device_def first_truthy_def dict_get_def lit_def)
  have n': "nested_devices ?kvs' = None" "\<forall>ys. map_of ?kvs' (lit ''devices'') \<noteq> Some (PyList ys)"
    "\<forall>ys. map_of ?kvs' (lit ''data'') \<noteq> Some (PyList ys)"
    by (simp_all add: nested_devices_def lit_def)
  have t: "type_of (PyStr (lit ''no'')) \<noteq> TDict" "type_of (PyStr (lit ''no'')) \<noteq> TList"
    by simp_all
  show ?thesis
    using fetch_devices_from_api_normalisation [of ?xs ?kvs "PyList ?xs" "PyStr (lit ''no'')"] n
      fetch_devices_from_api_normalisation [of "[]" ?kvs' PyNone "PyStr (lit ''no'')"] n' t
    unfolding r by simp
qed

text \<open>
  Claim C7 as the specification words it fails on the code in two places. A response whose
  \<open>data\<close> object holds \<open>"devices": null\<close> is none of the four shapes, yet it gives no
  warning. A record whose \<open>device\<close> is the empty string has \<open>device\<close> as its first
  present key, yet its identifier is taken from \<open>deviceId\<close>.
\<close>

theorem fetch_devices_from_api_counterexample:
  "spec_response_records (PyDict [(lit ''data'', PyDict [(lit ''devices'', PyNone)])]) = None \<and>
   fetch_devices_from_api (ApiData (PyDict [(lit ''data'', PyDict [(lit ''devices'', PyNone)])])) =
     (Inr [], [HttpGetDevices]) \<and>
   spec_first_present
     [(lit ''device'', PyStr []), (lit ''deviceId'', PyStr (lit ''abc'')),
      (lit ''model'', PyStr (lit ''H6006''))]
     [lit ''device'', lit ''deviceId'', lit ''id''] = Some (PyStr []) \<and>
   fetch_devices_from_api
     (ApiData (PyList [PyDict [(lit ''device'', PyStr []), (lit ''deviceId'', PyStr (lit ''abc'')),
                               (lit ''model'', PyStr (lit ''H6006''))]])) =
     (Inr [(PyStr (lit ''abc''), PyStr (lit ''H6006''))], [HttpGetDevices])"
  by (simp add: spec_response_records_def spec_first_present_def fetch_devices_from_api_def
      devices_raw_of_def nested_devices_def py_or_def dict_get_def lit_def)


text \<open>
  The case left out: the \<open>devices\<close> entry of the object \<open>data\<close> is not checked to be a
  list, as the entries of the other two kinds of object are. When it is a number, the
  loop over it raises \<open>TypeError\<close>, which \<open>fetch_devices_from_api\<close> does not catch.
\<close>

lemma fetch_devices_from_api_nested_number:
  "fetch_devices_from_api (ApiData (PyDict [(lit ''data'', PyDict [(lit ''devices'', PyInt 5)])])) =
     (Inl TypeError, [HttpGetDevices])"
  by (simp add: fetch_devices_from_api_def devices_raw_of_def nested_devices_def py_or_def lit_def)


section \<open>Properties of the allow-list\<close>

lemma keep_allowed_text_models:
  "\<forall>dm\<in>set devices. type_of (snd dm) = TStr \<or> \<not> truthy (snd dm) \<Longrightarrow>
   keep_allowed str_upper A devices =
     Inr (filter (\<lambda>dm. str_upper (model_text (snd dm)) = A) devices)"
proof (induction devices)
  case Nil
  then show ?case by simp
next
  case (Cons dm devices)
  obtain d m where dm: "dm = (d, m)" by (cases dm)
  have ih: "keep_allowed str_upper A devices =
     Inr (filter (\<lambda>dm. str_upper (model_text (snd dm)) = A) devices)"
    using Cons by simp
  have m: "type_of m = TStr \<or> \<not> truthy m"
    using Cons.prems dm by simp
  then have "py_or m (PyStr []) = PyStr (model_text m)"
    by (cases m) (auto simp: py_or_def model_text_def)
  then show ?case
    using dm ih by simp
qed

text \<open>
  Claim C5, as the code has it. Let every model in the device list be a string, a model
  that is \<open>null\<close> or otherwise false counting as the empty string. When the allow-list
  \<open>ALLOWED_MODEL\<close> (the environment variable, by default \<open>H6006\<close>, trimmed and put in
  upper case) is not empty, filtering keeps exactly the devices whose model in upper case
  equals it, in their order; so with the allow-list \<open>H6006\<close>, of the models \<open>H6006\<close>,
  \<open>H6003\<close>, \<open>h6006\<close> the first and the third are kept. When the allow-list is empty,
  filtering returns the list it was given, whatever the list holds.
\<close>

theorem filter_devices_allow_list:
  "(str_upper (py_strip (getenv ALLOWED_MODEL_env (lit ''H6006''))) \<noteq> [] \<longrightarrow>
    (\<forall>dm\<in>set devices. type_of (snd dm) = TStr \<or> \<not> truthy (snd dm)) \<longrightarrow>
      fst (filter_devices str_upper ALLOWED_MODEL_env devices) =
        Inr (filter (\<lambda>dm. str_upper (model_text (snd dm)) =
                           str_upper (py_strip (getenv ALLOWED_MODEL_env (lit ''H6006''))))
               devices)) \<and>
   (str_upper (py_strip (getenv ALLOWED_MODEL_env (lit ''H6006''))) = [] \<longrightarrow>
      fst (filter_devices str_upper ALLOWED_MODEL_env devices) = Inr devices) \<and>
   (str_upper (lit ''H6006'') = lit ''H6006'' \<longrightarrow> str_upper (lit ''H6003'') = lit ''H6003'' \<longrightarrow>
    str_upper (lit ''h6006'') = lit ''H6006'' \<longrightarrow>
      fst (filter_devices str_upper (Some (lit ''H6006''))
             [(a, PyStr (lit ''H6006'')), (b, PyStr (lit ''H6003'')), (c, PyStr (lit ''h6006''))]) =
        Inr [(a, PyStr (lit ''H6006'')), (c, PyStr (lit ''h6006''))])"
proof -
  have general: "fst (filter_devices str_upper env devs) =
        Inr (filter (\<lambda>dm. str_upper (model_text (snd dm)) =
                           str_upper (py_strip (getenv env (lit ''H6006'')))) devs)"
    if "str_upper (py_strip (getenv env (lit ''H6006''))) \<noteq> []"
      "\<forall>dm\<in>set devs. type_of (snd dm) = TStr \<or> \<not> truthy (snd dm)"
    for env devs
    using that by (simp add: filter_devices_def keep_allowed_text_models Let_def)
  have noop: "fst (filter_devices str_upper ALLOWED_MODEL_env devices) = Inr devices"
    if "str_upper (py_strip (getenv ALLOWED_MODEL_env (lit ''H6006''))) = []"
    using that by (simp add: filter_devices_def Let_def)
  have example: "fst (filter_devices str_upper (Some (lit ''H6006''))
             [(a, PyStr (lit ''H6006'')), (b, PyStr (lit ''H6003'')), (c, PyStr (lit ''h6006''))]) =
        Inr [(a, PyStr (lit ''H6006'')), (c, PyStr (lit ''h6006''))]"
    if u: "str_upper (lit ''H6006'') = lit ''H6006''" "str_upper (lit ''H6003'') = lit ''H6003''"
      "str_upper (lit ''h6006'') = lit ''H6006''"
  proof -
    have sp: "\<not> is_space 72" "\<not> is_space 54"
      by (simp_all add: is_space_def)
    have st: "py_strip (getenv (Some (lit ''H6006'')) (lit ''H6006'')) = lit ''H6006''"
      by (simp add: getenv_def lit_def py_strip_def py_lstrip_def py_rstrip_def sp)
    have ne: "lit ''H6006'' \<noteq> []" "lit ''H6003'' \<noteq> lit ''H6006''"
      by (simp_all add: lit_def)
    show ?thesis
      using general [of "Some (lit ''H6006'')"
          "[(a, PyStr (lit ''H6006'')), (b, PyStr (lit ''H6003'')), (c, PyStr (lit ''h6006''))]"]
      unfolding st by (simp add: u ne model_text_def)
  qed
  show ?thesis
    using general [of ALLOWED_MODEL_env devices] noop example by blast
qed

text \<open>
  With the ASCII case mapping: the example of the specification, a device whose model is
  \<open>null\<close>, which is dropped, and an empty allow-list, which keeps a list as it is.
\<close>

theorem filter_devices_allow_list_witness:
  "fst (filter_devices py_upper (Some (lit ''H6006''))
          [(PyStr (lit ''a''), PyStr (lit ''H6006'')), (PyStr (lit ''b''), PyStr (lit ''H6003'')),
           (PyStr (lit ''c''), PyStr (lit ''h6006''))]) =
     Inr [(PyStr (lit ''a''), PyStr (lit ''H6006'')), (PyStr (lit ''c''), PyStr (lit ''h6006''))] \<and>
   fst (filter_devices py_upper (Some (lit ''h6006 ''))
          [(PyStr (lit ''a''), PyNone), (PyStr (lit ''b''), PyStr (lit ''H6006''))]) =
     Inr [(PyStr (lit ''b''), PyStr (lit ''H6006''))] \<and>
   fst (filter_devices py_upper (Some [])
          [(PyStr (lit ''a''), PyStr (lit ''H6006'')), (PyStr (lit ''b''), PyInt 7)]) =
     Inr [(PyStr (lit ''a''), PyStr (lit ''H6006'')), (PyStr (lit ''b''), PyInt 7)]"
proof -
  have sp: "\<not> is_space 72" "\<not> is_space 54" "\<not> is_space 104" "is_space 32"
    by (simp_all add: is_space_def)
  have u: "py_upper (lit ''H6006'') = lit ''H6006''" "py_upper (lit ''H6003'') = lit ''H6003''"
    "py_upper (lit ''h6006'') = lit ''H6006''" "py_upper [] = []"
    by (simp_all add: py_upper_def upper_char_def lit_def)
  have a: "py_strip (getenv (Some (lit ''h6006 '')) (lit ''H6006'')) = lit ''h6006''"
    by (simp add: getenv_def lit_def py_strip_def py_lstrip_def py_rstrip_def sp)
  have b: "py_strip (getenv (Some []) (lit ''H6006'')) = []"
    by (simp add: getenv_def)
  have ne: "lit ''H6006'' \<noteq> []" "[] \<noteq> lit ''H6006''"
    by (simp_all add: lit_def)
  show ?thesis
    using filter_devices_allow_list [where str_upper = py_upper
        and ALLOWED_MODEL_env = "Some (lit ''h6006 '')"
        and devices = "[(PyStr (lit ''a''), PyNone), (PyStr (lit ''b''), PyStr (lit ''H6006''))]"
        and a = "PyStr (lit ''a'')" and b = "PyStr (lit ''b'')" and c = "PyStr (lit ''c'')"]
      filter_devices_allow_list [where str_upper = py_upper and ALLOWED_MODEL_env = "Some []"
        and devices = "[(PyStr (lit ''a''), PyStr (lit ''H6006'')), (PyStr (lit ''b''), PyInt 7)]"]
    unfolding a b by (simp add: u ne model_text_def)
qed

text \<open>
  Claim C5 as the specification words it, for every device list, fails on the code: a
  device whose model is the number 6006, as discovery returns it for a record with
  \<open>"model": 6006\<close>, is not dropped; the filter raises \<open>AttributeError\<close>.
\<close>

theorem filter_devices_counterexample:
  "fst (fetch_devices_from_api
          (ApiData (PyList [PyDict [(lit ''device'', PyStr (lit ''aa'')),
                                    (lit ''model'', PyInt 6006)]]))) =
     Inr [(PyStr (lit ''aa''), PyInt 6006)] \<and>
   fst (filter_devices py_upper (Some (lit ''H6006'')) [(PyStr (lit ''aa''), PyInt 6006)]) =
     Inl (Uncaught AttributeError)"
proof -
  have sp: "\<not> is_space 72" "\<not> is_space 54"
    by (simp_all add: is_space_def)
  have a: "py_upper (py_strip (getenv (Some (lit ''H6006'')) (lit ''H6006''))) \<noteq> []"
    by (simp add: getenv_def lit_def py_strip_def py_lstrip_def py_rstrip_def sp py_upper_def)
  have f: "fst (fetch_devices_from_api
          (ApiData (PyList [PyDict [(lit ''device'', PyStr (lit ''aa'')),
                                    (lit ''model'', PyInt 6006)]]))) =
     Inr [(PyStr (lit ''aa''), PyInt 6006)]"
    by (simp add: fetch_devices_from_api_def devices_raw_of_def dict_get_def py_or_def lit_def)
  show ?thesis
    using a f by (simp add: filter_devices_def Let_def py_or_def)
qed

section \<open>Properties of device resolution\<close>

lemma count_get_prints [simp]: "count_list (map Print warned) HttpGetDevices = 0"
  by (induction warned) auto







lemma count_get_filter_devices [simp]:
  "count_list (snd (filter_devices str_upper env devices)) HttpGetDevices = 0"
  by (auto simp: filter_devices_def Let_def split: sum.splits if_splits)














section \<open>Properties of \<open>govee_turn_all\<close>\<close>

lemma length_put_answers: "length (put_answers put w bs) = length bs"
  by (induction bs arbitrary: w) auto

lemma govee_turn_all_loop_result:
  "fst (govee_turn_all_loop put val devs ok w effs) =
     (ok \<and> list_all succeeded (put_answers put w (map (control_body val) devs))) \<and>
   snd (snd (govee_turn_all_loop put val devs ok w effs)) =
     effs @ concat (map (device_effects val)
                      (zip devs (put_answers put w (map (control_body val) devs))))"
proof (induction devs arbitrary: ok w effs)
  case Nil
  then show ?case by simp
next
  case (Cons dm devs)
  obtain d m where dm: "dm = (d, m)" by (cases dm)
  obtain r w' where p: "put w (control_body val (d, m)) = (r, w')"
    by (cases "put w (control_body val (d, m))")
  show ?case
  proof (cases r)
    case (PutResponse status_code answer)
    with p dm show ?thesis
      by (simp add: Cons.IH control_body_def device_effects_def Let_def)
  next
    case (PutRequestException e)
    with p dm show ?thesis
      by (simp add: Cons.IH control_body_def device_effects_def Let_def)
  qed
qed

text \<open>
  Claim C3. \<open>govee_turn_all\<close> returns for every device list, every command and every
  behaviour of the vendor: the model has no branch in which it raises, since the one
  exception \<open>SESSION.put\<close> raises is caught. Its effects are, for each device in the
  order of the list, one request carrying that device, followed by the line for that
  device's answer; each device is asked once whatever the earlier answers were. The
  result is true exactly when every answer is a response with status 200.
\<close>

theorem govee_turn_all_every_device:
  "fst (govee_turn_all put devs val w) =
     list_all succeeded (put_answers put w (map (control_body val) devs)) \<and>
   snd (snd (govee_turn_all put devs val w)) =
     concat (map (device_effects val)
              (zip devs (put_answers put w (map (control_body val) devs)))) \<and>
   length (put_answers put w (map (control_body val) devs)) = length devs"
  using govee_turn_all_loop_result [of put val devs True w "[]"]
  by (simp add: govee_turn_all_def length_put_answers)

text \<open>
  Three devices of which the second is answered with status 500: all three are asked, the
  second line reports the failure, and the result is false.
\<close>

theorem govee_turn_all_every_device_witness:
  "fst (govee_turn_all (\<lambda>w b. (if w = (1::nat) then PutResponse 500 (lit ''no'') else PutResponse 200 [], w + 1))
     [(PyStr (lit ''a''), PyStr (lit ''H6006'')), (PyStr (lit ''b''), PyStr (lit ''H6006'')),
      (PyStr (lit ''c''), PyStr (lit ''H6006''))] (lit ''on'') 0) = False \<and>
   snd (snd (govee_turn_all (\<lambda>w b. (if w = (1::nat) then PutResponse 500 (lit ''no'') else PutResponse 200 [], w + 1))
     [(PyStr (lit ''a''), PyStr (lit ''H6006'')), (PyStr (lit ''b''), PyStr (lit ''H6006'')),
      (PyStr (lit ''c''), PyStr (lit ''H6006''))] (lit ''on'') 0)) =
      [HttpPutControl (control_body (lit ''on'') (PyStr (lit ''a''), PyStr (lit ''H6006''))) (PutResponse 200 []),
       Print (OkTurn (PyStr (lit ''a'')) (PyStr (lit ''H6006'')) (lit ''ON'')),
       HttpPutControl (control_body (lit ''on'') (PyStr (lit ''b''), PyStr (lit ''H6006'')))
         (PutResponse 500 (lit ''no'')),
       Print (ErrHttp (PyStr (lit ''b'')) (PyStr (lit ''H6006'')) 500 (lit ''no'')),
       HttpPutControl (control_body (lit ''on'') (PyStr (lit ''c''), PyStr (lit ''H6006''))) (PutResponse 200 []),
       Print (OkTurn (PyStr (lit ''c'')) (PyStr (lit ''H6006'')) (lit ''ON''))]"
proof -
  let ?put = "\<lambda>w (b::payload). (if w = (1::nat) then PutResponse 500 (lit ''no'') else PutResponse 200 [], w + 1)"
  let ?a = "(PyStr (lit ''a''), PyStr (lit ''H6006''))"
  let ?b = "(PyStr (lit ''b''), PyStr (lit ''H6006''))"
  let ?c = "(PyStr (lit ''c''), PyStr (lit ''H6006''))"
  have u: "py_upper (lit ''on'') = lit ''ON''"
    by (simp add: py_upper_def upper_char_def lit_def)
  have ans: "put_answers ?put 0 (map (control_body (lit ''on'')) [?a, ?b, ?c]) =
               [PutResponse 200 [], PutResponse 500 (lit ''no''), PutResponse 200 []]"
    by simp
  show ?thesis
    using govee_turn_all_every_device [of ?put "[?a, ?b, ?c]" "lit ''on''" 0]
    unfolding ans by (simp add: device_effects_def u)
qed


lemma device_line_not_skip:
  "device_line val dm r \<noteq> SkipCooldown m" "SkipCooldown m \<noteq> device_line val dm r"
  by (cases r; simp)+

lemma device_effects_one_no_skip: "Print (SkipCooldown m) \<notin> set (device_effects val z)"
  by (simp add: device_effects_def device_line_not_skip)

lemma govee_turn_all_no_skip:
  "Print (SkipCooldown m) \<notin> set (snd (snd (govee_turn_all put devs val w)))"
  using govee_turn_all_loop_result [of put val devs True w "[]"]
  by (simp add: govee_turn_all_def device_effects_one_no_skip)

section \<open>Properties of \<open>normalize_line\<close>\<close>




lemma normalize_line_examples:
  "normalize_line (bytes_of ''LIGHTS_ON'' @ [13, 10]) = TRIGGER_ON"
  "normalize_line (bytes_of ''LIGHTS_OFF'' @ [10]) = TRIGGER_OFF"
  "normalize_line (bytes_of ''  '') = []"
  "normalize_line (bytes_of ''42cm'') = lit ''42cm''"
  "normalize_line ([255] @ bytes_of ''LIGHTS_ON'' @ [128, 13, 10]) = TRIGGER_ON"
  by (simp_all add: normalize_line_def bytes_of_def TRIGGER_ON_def TRIGGER_OFF_def lit_def
      py_strip_def py_lstrip_def py_rstrip_def is_space_def utf8_sequence_def)

lemma other_example:
  "lit ''42cm'' \<noteq> []" "lit ''42cm'' \<noteq> TRIGGER_ON" "lit ''42cm'' \<noteq> TRIGGER_OFF"
  by (simp_all add: lit_def TRIGGER_ON_def TRIGGER_OFF_def)




section \<open>Properties of the listening loop\<close>

lemma TRIGGER_ON_neq_OFF: "TRIGGER_ON \<noteq> TRIGGER_OFF"
  by (simp add: TRIGGER_ON_def TRIGGER_OFF_def lit_def)

lemma normalize_line_Nil [simp]: "normalize_line [] = []"
  by (simp add: normalize_line_def py_strip_def py_lstrip_def py_rstrip_def)

lemma triggers_nonempty: "TRIGGER_ON \<noteq> []" "TRIGGER_OFF \<noteq> []"
  by (simp_all add: TRIGGER_ON_def TRIGGER_OFF_def lit_def)

lemma loop_body_on:
  assumes "normalize_line raw = TRIGGER_ON"
    and "\<not> (COOLDOWN_MS > 0 \<and> now_ms - last_action_ms st < COOLDOWN_MS)"
  shows "loop_body put devs COOLDOWN_MS raw now_ms (st, w) =
           ((st\<lparr>lights_on_state := Some True, last_action_ms := now_ms\<rparr>,
             fst (snd (govee_turn_all put devs (lit ''on'') w))),
            CallGoveeTurnAll (lit ''on'') # snd (snd (govee_turn_all put devs (lit ''on'') w)))"
proof -
  have "raw \<noteq> []" using assms(1) triggers_nonempty by auto
  then show ?thesis
    using assms triggers_nonempty by (auto simp: loop_body_def Let_def split: prod.splits)
qed



lemma cooldown_gate_steps:
  assumes t1: "normalize_line raw1 = TRIGGER_ON \<or> normalize_line raw1 = TRIGGER_OFF"
    and accepted: "\<not> (COOLDOWN_MS > 0 \<and> t - last_action_ms st0 < COOLDOWN_MS)"
    and t2: "normalize_line raw2 = TRIGGER_ON \<or> normalize_line raw2 = TRIGGER_OFF"
    and step1: "loop_body put devs COOLDOWN_MS raw1 t (st0, w0) = ((st1, w1), effs1)"
    and step2: "loop_body put devs COOLDOWN_MS raw2 (t + d) (st1, w1) = ((st2, w2), effs2)"
  shows "last_action_ms st1 = t \<and>
         (0 < d \<and> d < COOLDOWN_MS \<longrightarrow>
            effs2 = [Print (SkipCooldown (normalize_line raw2))] \<and> w2 = w1 \<and> st2 = st1 \<and>
            last_action_ms st2 = t) \<and>
         (COOLDOWN_MS \<le> d \<longrightarrow>
            effs2 = CallGoveeTurnAll (if normalize_line raw2 = TRIGGER_ON then lit ''on''
                                      else lit ''off'')
                      # snd (snd (govee_turn_all put devs
                                    (if normalize_line raw2 = TRIGGER_ON then lit ''on''
                                     else lit ''off'') w1)) \<and>
            last_action_ms st2 = t + d)"
proof -
  have r1: "raw1 \<noteq> []" and r2: "raw2 \<noteq> []"
    using t1 t2 triggers_nonempty by auto
  have l1: "last_action_ms st1 = t"
    using t1 accepted step1 r1 triggers_nonempty TRIGGER_ON_neq_OFF
    by (auto simp: loop_body_def Let_def split: prod.splits if_splits)
  have skip: "effs2 = [Print (SkipCooldown (normalize_line raw2))] \<and> w2 = w1 \<and> st2 = st1"
    if "0 < d" "d < COOLDOWN_MS"
    using that t2 step2 r2 l1 triggers_nonempty
    by (auto simp: loop_body_def Let_def split: prod.splits if_splits)
  have go: "effs2 = CallGoveeTurnAll (if normalize_line raw2 = TRIGGER_ON then lit ''on''
                                      else lit ''off'')
                      # snd (snd (govee_turn_all put devs
                                    (if normalize_line raw2 = TRIGGER_ON then lit ''on''
                                     else lit ''off'') w1)) \<and>
            last_action_ms st2 = t + d"
    if "COOLDOWN_MS \<le> d"
    using that t2 step2 r2 l1 triggers_nonempty TRIGGER_ON_neq_OFF
    by (auto simp: loop_body_def Let_def split: prod.splits if_splits)
  show ?thesis
    using l1 skip go by simp
qed



text \<open>
  Claim C1. Let a line that reads \<open>LIGHTS_ON\<close> or \<open>LIGHTS_OFF\<close> be processed at time
  \<open>t\<close> and pass the cooldown gate, and let a second such line arrive at time \<open>t + d\<close>
  in the state the first one left. The first sets \<open>last_action_ms\<close> to \<open>t\<close>. If
  \<open>0 < d < COOLDOWN_MS\<close>, the second only prints the skip line: \<open>govee_turn_all\<close> is not
  called and the state, with \<open>last_action_ms = t\<close>, is unchanged. If
  \<open>d \<ge> COOLDOWN_MS\<close>, the second calls \<open>govee_turn_all\<close> and sets \<open>last_action_ms\<close> to
  \<open>t + d\<close>, whatever the vendor answers to the requests.
\<close>

theorem cooldown_gate:
  assumes "normalize_line raw1 = TRIGGER_ON \<or> normalize_line raw1 = TRIGGER_OFF"
    and "\<not> (COOLDOWN_MS > 0 \<and> t - last_action_ms st0 < COOLDOWN_MS)"
    and "normalize_line raw2 = TRIGGER_ON \<or> normalize_line raw2 = TRIGGER_OFF"
  shows "last_action_ms (fst (fst (loop_body put devs COOLDOWN_MS raw1 t (st0, w0)))) = t \<and>
         (0 < d \<and> d < COOLDOWN_MS \<longrightarrow>
            loop_body put devs COOLDOWN_MS raw2 (t + d)
                (fst (loop_body put devs COOLDOWN_MS raw1 t (st0, w0))) =
              (fst (loop_body put devs COOLDOWN_MS raw1 t (st0, w0)),
               [Print (SkipCooldown (normalize_line raw2))])) \<and>
         (COOLDOWN_MS \<le> d \<longrightarrow>
            snd (loop_body put devs COOLDOWN_MS raw2 (t + d)
                   (fst (loop_body put devs COOLDOWN_MS raw1 t (st0, w0)))) =
              CallGoveeTurnAll (if normalize_line raw2 = TRIGGER_ON then lit ''on'' else lit ''off'')
                # snd (snd (govee_turn_all put devs
                              (if normalize_line raw2 = TRIGGER_ON then lit ''on'' else lit ''off'')
                              (snd (fst (loop_body put devs COOLDOWN_MS raw1 t (st0, w0)))))) \<and>
            last_action_ms (fst (fst (loop_body put devs COOLDOWN_MS raw2 (t + d)
                   (fst (loop_body put devs COOLDOWN_MS raw1 t (st0, w0)))))) = t + d)"
proof -
  obtain st1 w1 effs1 where s1: "loop_body put devs COOLDOWN_MS raw1 t (st0, w0) = ((st1, w1), effs1)"
    by (metis prod.exhaust)
  obtain st2 w2 effs2 where s2: "loop_body put devs COOLDOWN_MS raw2 (t + d) (st1, w1) = ((st2, w2), effs2)"
    by (metis prod.exhaust)
  show ?thesis
    using cooldown_gate_steps [OF assms s1 s2] by (simp add: s1 s2)
qed



text \<open>
  With a cooldown of 800 and a vendor that answers every request with status 500:
  \<open>LIGHTS_ON\<close> at 5000 is acted on; \<open>LIGHTS_OFF\<close> at 5300 is skipped and leaves the
  state; \<open>LIGHTS_OFF\<close> at 5800 sets \<open>last_action_ms\<close> to 5800.
\<close>

theorem cooldown_gate_witness:
  "loop_body (\<lambda>w b. (PutResponse 500 [], w)) [(PyStr (lit ''aa''), PyStr (lit ''H6006''))] 800
     (bytes_of ''LIGHTS_OFF'' @ [10]) 5300
     (fst (loop_body (\<lambda>w b. (PutResponse 500 [], w)) [(PyStr (lit ''aa''), PyStr (lit ''H6006''))] 800
             (bytes_of ''LIGHTS_ON'' @ [13, 10]) 5000 (initial_state, 0::nat))) =
     ((\<lparr>lights_on_state = Some True, last_action_ms = 5000\<rparr>, 0),
      [Print (SkipCooldown TRIGGER_OFF)]) \<and>
   last_action_ms (fst (fst (loop_body (\<lambda>w b. (PutResponse 500 [], w))
     [(PyStr (lit ''aa''), PyStr (lit ''H6006''))] 800
     (bytes_of ''LIGHTS_OFF'' @ [10]) 5800
     (fst (loop_body (\<lambda>w b. (PutResponse 500 [], w)) [(PyStr (lit ''aa''), PyStr (lit ''H6006''))] 800
             (bytes_of ''LIGHTS_ON'' @ [13, 10]) 5000 (initial_state, 0::nat)))))) = 5800"
proof -
  let ?put = "\<lambda>(w::nat) (b::payload). (PutResponse 500 [], w)"
  let ?devs = "[(PyStr (lit ''aa''), PyStr (lit ''H6006''))]"
  have a: "normalize_line (bytes_of ''LIGHTS_ON'' @ [13, 10]) = TRIGGER_ON \<or>
           normalize_line (bytes_of ''LIGHTS_ON'' @ [13, 10]) = TRIGGER_OFF"
    and b: "normalize_line (bytes_of ''LIGHTS_OFF'' @ [10]) = TRIGGER_ON \<or>
            normalize_line (bytes_of ''LIGHTS_OFF'' @ [10]) = TRIGGER_OFF"
    by (simp_all add: normalize_line_examples)
  have g: "\<not> ((800::int) > 0 \<and> 5000 - last_action_ms initial_state < 800)"
    by (simp add: initial_state_def govee_turn_all_def)
  have f: "fst (loop_body ?put ?devs 800 (bytes_of ''LIGHTS_ON'' @ [13, 10]) 5000 (initial_state, 0::nat)) =
             (\<lparr>lights_on_state = Some True, last_action_ms = 5000\<rparr>, 0)"
    using loop_body_on [OF normalize_line_examples(1) g, of ?put ?devs 0]
    by (simp add: initial_state_def govee_turn_all_def)
  show ?thesis
    using cooldown_gate [OF a g b, of ?put ?devs 0 300]
      cooldown_gate [OF a g b, of ?put ?devs 0 800]
    by (simp add: f normalize_line_examples)
qed



text \<open>
  Claim C9. When \<open>COOLDOWN_MS\<close> is zero or negative, no line that is not empty after
  decoding is skipped: the skip line is never printed, and the line is acted on as
  \<open>LIGHTS_ON\<close>, as \<open>LIGHTS_OFF\<close>, or printed as passthrough text, however little time
  has passed since the last action.
\<close>

theorem cooldown_disabled:
  assumes "COOLDOWN_MS \<le> 0" and "normalize_line raw \<noteq> []"
  shows "Print (SkipCooldown m) \<notin> set (snd (loop_body put devs COOLDOWN_MS raw now_ms (st, w))) \<and>
         loop_body put devs COOLDOWN_MS raw now_ms (st, w) =
           (if normalize_line raw = TRIGGER_ON then
              ((st\<lparr>lights_on_state := Some True, last_action_ms := now_ms\<rparr>,
                fst (snd (govee_turn_all put devs (lit ''on'') w))),
               CallGoveeTurnAll (lit ''on'') # snd (snd (govee_turn_all put devs (lit ''on'') w)))
            else if normalize_line raw = TRIGGER_OFF then
              ((st\<lparr>lights_on_state := Some False, last_action_ms := now_ms\<rparr>,
                fst (snd (govee_turn_all put devs (lit ''off'') w))),
               CallGoveeTurnAll (lit ''off'') # snd (snd (govee_turn_all put devs (lit ''off'') w)))
            else ((st, w), [Print (Uart (normalize_line raw))]))"
proof -
  have eq: "loop_body put devs COOLDOWN_MS raw now_ms (st, w) =
           (if normalize_line raw = TRIGGER_ON then
              ((st\<lparr>lights_on_state := Some True, last_action_ms := now_ms\<rparr>,
                fst (snd (govee_turn_all put devs (lit ''on'') w))),
               CallGoveeTurnAll (lit ''on'') # snd (snd (govee_turn_all put devs (lit ''on'') w)))
            else if normalize_line raw = TRIGGER_OFF then
              ((st\<lparr>lights_on_state := Some False, last_action_ms := now_ms\<rparr>,
                fst (snd (govee_turn_all put devs (lit ''off'') w))),
               CallGoveeTurnAll (lit ''off'') # snd (snd (govee_turn_all put devs (lit ''off'') w)))
            else ((st, w), [Print (Uart (normalize_line raw))]))"
  proof -
    have "raw \<noteq> []" using assms(2) by auto
    then show ?thesis
      using assms by (simp add: loop_body_def Let_def split: prod.splits)
  qed
  show ?thesis
    unfolding eq using eq govee_turn_all_no_skip [of m put devs] by simp
qed


theorem cooldown_disabled_witness:
  "loop_body (\<lambda>w b. (PutResponse 200 [], w)) [] 0 (bytes_of ''LIGHTS_ON'' @ [13, 10]) 1
     (\<lparr>lights_on_state = Some False, last_action_ms = 0\<rparr>, ()) =
     ((\<lparr>lights_on_state = Some True, last_action_ms = 1\<rparr>, ()), [CallGoveeTurnAll (lit ''on'')])"
proof -
  have a: "(0::int) \<le> 0" by simp
  have c: "normalize_line (bytes_of ''LIGHTS_ON'' @ [13, 10]) \<noteq> []"
    by (simp add: normalize_line_examples triggers_nonempty)
  show ?thesis
    using cooldown_disabled [OF a c, of _ "\<lambda>w b. (PutResponse 200 [], w)" "[]" 1
        "\<lparr>lights_on_state = Some False, last_action_ms = 0\<rparr>" "()"]
    by (simp add: normalize_line_examples govee_turn_all_def)
qed



text \<open>
  Claim C2, as the code has it. A line that is not empty after decoding and is neither
  \<open>LIGHTS_ON\<close> nor \<open>LIGHTS_OFF\<close> never changes the state of the bridge, so it never
  updates \<open>last_action_ms\<close>, and never calls \<open>govee_turn_all\<close>. The cooldown gate comes
  before the comparison with the triggers: inside the cooldown window the line is
  printed as a skip, outside of it as passthrough text.
\<close>

theorem other_lines:
  assumes "normalize_line raw \<noteq> []"
    and "normalize_line raw \<noteq> TRIGGER_ON" and "normalize_line raw \<noteq> TRIGGER_OFF"
  shows "loop_body put devs COOLDOWN_MS raw now_ms (st, w) =
           ((st, w),
            [Print (if COOLDOWN_MS > 0 \<and> now_ms - last_action_ms st < COOLDOWN_MS
                    then SkipCooldown (normalize_line raw) else Uart (normalize_line raw))])"
proof -
  have "raw \<noteq> []" using assms(1) by auto
  then show ?thesis
    using assms by (simp add: loop_body_def Let_def)
qed



theorem other_lines_witness:
  "loop_body (\<lambda>w b. (PutResponse 200 [], w)) [] 800 (bytes_of ''42cm'') 6000
     (\<lparr>lights_on_state = Some True, last_action_ms = 5000\<rparr>, ()) =
     ((\<lparr>lights_on_state = Some True, last_action_ms = 5000\<rparr>, ()), [Print (Uart (lit ''42cm''))])"
  using other_lines [of "bytes_of ''42cm''" "\<lambda>w b. (PutResponse 200 [], w)" "[]" 800 6000
      "\<lparr>lights_on_state = Some True, last_action_ms = 5000\<rparr>" "()"]
  by (simp add: normalize_line_examples other_example)



text \<open>
  Claim C2 as the specification words it fails on the code: with a cooldown of 800, the
  line \<open>42cm\<close> that arrives 100 after the last action is printed as a skip, not as
  passthrough text.
\<close>

theorem other_lines_counterexample:
  "normalize_line (bytes_of ''42cm'') = lit ''42cm'' \<and>
   lit ''42cm'' \<noteq> TRIGGER_ON \<and> lit ''42cm'' \<noteq> TRIGGER_OFF \<and>
   snd (loop_body (\<lambda>w b. (PutResponse 200 [], w)) [] 800 (bytes_of ''42cm'') 5100
          (\<lparr>lights_on_state = Some True, last_action_ms = 5000\<rparr>, ())) =
     [Print (SkipCooldown (lit ''42cm''))] \<and>
   snd (loop_body (\<lambda>w b. (PutResponse 200 [], w)) [] 800 (bytes_of ''42cm'') 5100
          (\<lparr>lights_on_state = Some True, last_action_ms = 5000\<rparr>, ())) \<noteq>
     [Print (Uart (lit ''42cm''))]"
  by (simp add: loop_body_def normalize_line_examples other_example) (simp add: bytes_of_def)





end
